theory Spec2Isabelle
  imports Main "HOL-Library.AList"
begin

section \<open>Python values and exceptions\<close>

text \<open>
  The values that entity attributes, identifiers and column defaults take. On these
  kinds Python's \<^verbatim>\<open>==\<close> and \<^verbatim>\<open>is None\<close> agree with
  structural equality. A \<^verbatim>\<open>datetime\<close> is its position on the time line.
\<close>

datatype pyval = PNone | PInt int | PStr string | PDatetime int

text \<open>
  The exceptions the modelled code raises, each with its message or argument.
  \<^verbatim>\<open>RepositoryNotFoundException\<close> is raised by \<^verbatim>\<open>check_not_found\<close>;
  \<^verbatim>\<open>NameError\<close>, \<^verbatim>\<open>RuntimeError\<close> and \<^verbatim>\<open>ValidationError\<close> are raised
  by pydantic. \<open>IdentityConflict\<close> is the error kind that the spec names for \<^verbatim>\<open>add\<close>
  on an entity that has an identity; no code under src/ raises it.
\<close>

datatype error =
    ValueError string
  | KeyError string
  | NameError string
  | RuntimeError string
  | AssertionError string
  | AttributeError string
  | UnauthorizedException string
  | RepositoryNotFoundException
  | IdentityConflict
  | ValidationError "string list"

text \<open>\<^verbatim>\<open>str.startswith\<close>.\<close>

definition startswith :: "string \<Rightarrow> string \<Rightarrow> bool" where
  "startswith k p = (take (length p) k = p)"

section \<open>app/lib/dto.py\<close>

datatype Mode = Mode_read_only | Mode_private

datatype Purpose = Purpose_read | Purpose_write

text \<open>
  A value stored in \<^verbatim>\<open>Column.info\<close>: a member of \<^verbatim>\<open>Mode\<close> or anything else.
\<close>

datatype info_value = ModeValue Mode | OtherValue pyval

text \<open>
  \<^verbatim>\<open>Column.default\<close>, when it is not \<^verbatim>\<open>None\<close>: a default generator with
  \<^verbatim>\<open>is_scalar\<close> set and the value in \<^verbatim>\<open>arg\<close>, one with \<^verbatim>\<open>is_callable\<close>
  set and the function in \<^verbatim>\<open>arg\<close>, or one with neither flag (a SQL expression,
  a sequence). A callable takes the execution context (a dict) and runs in a world
  \<open>'w\<close>, which it may read and change: a counter, a random source.
\<close>

datatype 'w column_default =
    ScalarDefault pyval
  | CallableDefault "(string \<times> pyval) list \<Rightarrow> 'w \<Rightarrow> pyval \<times> 'w"
  | OtherDefault

record 'w column =
  info :: "string \<rightharpoonup> info_value"
  col_default :: "'w column_default option"

text \<open>
  pydantic's \<^verbatim>\<open>FieldInfo\<close>: \<^verbatim>\<open>FieldInfo(...)\<close> has the default \<^verbatim>\<open>Ellipsis\<close>
  (the field is required), \<^verbatim>\<open>FieldInfo(default=v)\<close> the default \<open>v\<close>, and
  \<^verbatim>\<open>FieldInfo(default_factory=f)\<close> the default \<^verbatim>\<open>Undefined\<close> and the factory \<open>f\<close>.
\<close>

datatype field_default = Ellipsis | Undefined | DefaultValue pyval

record 'w FieldInfo =
  fi_default :: field_default
  default_factory :: "('w \<Rightarrow> pyval \<times> 'w) option"

definition DTO_INFO_KEY :: string where
  "DTO_INFO_KEY = ''dto''"

definition construct_field_info :: "'w column \<Rightarrow> Purpose \<Rightarrow> error + 'w FieldInfo" where
  "construct_field_info column purpose =
     (case col_default column of
        None \<Rightarrow> Inr \<lparr>fi_default = Ellipsis, default_factory = None\<rparr>
      | Some dflt \<Rightarrow>
          if purpose = Purpose_read then Inr \<lparr>fi_default = Ellipsis, default_factory = None\<rparr>
          else (case dflt of
                  ScalarDefault a \<Rightarrow> Inr \<lparr>fi_default = DefaultValue a, default_factory = None\<rparr>
                | CallableDefault f \<Rightarrow>
                    Inr \<lparr>fi_default = Undefined, default_factory = Some (\<lambda>w. f [] w)\<rparr>
                | OtherDefault \<Rightarrow> Inl (ValueError ''Unexpected default type'')))"

definition should_exclude_field :: "Purpose \<Rightarrow> 'w column \<Rightarrow> bool" where
  "should_exclude_field purpose column =
     (let mode = info column DTO_INFO_KEY in
      if mode = Some (ModeValue Mode_private) then True
      else if purpose = Purpose_write \<and> mode = Some (ModeValue Mode_read_only) then True
      else False)"

text \<open>
  A type hint of the model class: \<^verbatim>\<open>Mapped[t]\<close>, or a hint whose origin is not
  \<^verbatim>\<open>Mapped\<close>. Types are named.
\<close>

type_synonym py_type = string

datatype type_hint = Mapped py_type | NotMapped py_type

text \<open>
  What \<^verbatim>\<open>factory\<close> reads of the model class: \<^verbatim>\<open>get_type_hints(model).items()\<close>, in
  order, and \<^verbatim>\<open>inspect(model).columns\<close>.
\<close>

record 'w orm_model =
  type_hints :: "(string \<times> type_hint) list"
  columns :: "string \<rightharpoonup> 'w column"

type_synonym 'w dto_fields = "(string \<times> (py_type \<times> 'w FieldInfo)) list"

text \<open>
  The loop of \<^verbatim>\<open>factory\<close> over the type hints. \<^verbatim>\<open>columns[key]\<close> raises
  \<^verbatim>\<open>KeyError\<close> for a hint with no column; \<^verbatim>\<open>dto_fields[key] = ...\<close> is the dict
  assignment, which keeps the position of a key already there.
\<close>

fun factory_loop ::
  "(string \<times> type_hint) list \<Rightarrow> (string \<rightharpoonup> 'w column) \<Rightarrow> Purpose \<Rightarrow> 'w dto_fields
     \<Rightarrow> error + 'w dto_fields" where
  "factory_loop [] cols purpose dto = Inr dto"
| "factory_loop ((key, hint) # rest) cols purpose dto =
     (case cols key of
        None \<Rightarrow> Inl (KeyError key)
      | Some column \<Rightarrow>
          if should_exclude_field purpose column then factory_loop rest cols purpose dto
          else (case hint of
                  NotMapped t \<Rightarrow> factory_loop rest cols purpose dto
                | Mapped t \<Rightarrow>
                    (case construct_field_info column purpose of
                       Inl e \<Rightarrow> Inl e
                     | Inr fi \<Rightarrow>
                         factory_loop rest cols purpose (AList.update key (t, fi) dto))))"

text \<open>
  The class \<^verbatim>\<open>create_model\<close> returns: its name, its config and its fields in order.
\<close>

record 'w schema =
  schema_name :: string
  orm_mode :: bool
  schema_fields :: "'w dto_fields"

text \<open>
  pydantic is a library, not part of this repository. What \<^verbatim>\<open>create_model\<close> needs
  to know of it is taken as a parameter: which names are attributes of
  \<^verbatim>\<open>BaseModel\<close> (\<^verbatim>\<open>dict\<close>, \<^verbatim>\<open>json\<close>, \<^verbatim>\<open>copy\<close>, \<^verbatim>\<open>schema\<close> and the rest),
  and for which types it finds a validator.
\<close>

record pydantic =
  BaseModel_attribute :: "string \<Rightarrow> bool"
  has_validator :: "py_type \<Rightarrow> bool"

definition ROOT_KEY :: string where
  "ROOT_KEY = ''__root__''"

text \<open>pydantic's \<^verbatim>\<open>is_valid_field\<close>.\<close>

definition is_valid_field :: "string \<Rightarrow> bool" where
  "is_valid_field name = (if \<not> startswith name ''_'' then True else ROOT_KEY = name)"

text \<open>
  What pydantic 1.x does with the field definitions that \<^verbatim>\<open>create_model\<close> receives,
  in order. A name that is not a valid field name (it starts with an underscore) is
  ignored, with a warning: it is not a field of the class. A valid name that shadows an
  attribute of \<^verbatim>\<open>BaseModel\<close> raises \<^verbatim>\<open>NameError\<close>, and a type with no validator
  raises \<^verbatim>\<open>RuntimeError\<close>. Annotations are taken to be types of values.
\<close>

fun model_fields :: "pydantic \<Rightarrow> 'w dto_fields \<Rightarrow> error + 'w dto_fields" where
  "model_fields lib [] = Inr []"
| "model_fields lib ((name, (t, fi)) # rest) =
     (if is_valid_field name then
        if BaseModel_attribute lib name then Inl (NameError name)
        else if \<not> has_validator lib t then Inl (RuntimeError t)
        else (case model_fields lib rest of
                Inl e \<Rightarrow> Inl e
              | Inr fs \<Rightarrow> Inr ((name, (t, fi)) # fs))
      else model_fields lib rest)"

text \<open>
  \<^verbatim>\<open>create_model(name, __config__=..., **dto_fields)\<close>. A custom root field cannot
  be mixed with other fields.
\<close>

definition create_model :: "pydantic \<Rightarrow> string \<Rightarrow> 'w dto_fields \<Rightarrow> error + 'w schema" where
  "create_model lib name dto =
     (case model_fields lib dto of
        Inl e \<Rightarrow> Inl e
      | Inr fs \<Rightarrow>
          if ROOT_KEY \<in> set (map fst fs) \<and> 1 < length fs
          then Inl (ValueError ''__root__ cannot be mixed with other fields'')
          else Inr \<lparr>schema_name = name, orm_mode = True, schema_fields = fs\<rparr>)"

definition factory ::
  "pydantic \<Rightarrow> string \<Rightarrow> 'w orm_model \<Rightarrow> Purpose \<Rightarrow> error + 'w schema" where
  "factory lib name model purpose =
     (case factory_loop (type_hints model) (columns model) purpose [] of
        Inl e \<Rightarrow> Inl e
      | Inr dto \<Rightarrow> create_model lib name dto)"


section \<open>Instantiating a schema\<close>

text \<open>
  Modelled from the spec: what the request layer (pydantic, not part of this repository)
  does with a field when an instance of the schema is created. A supplied value is
  taken; a required field with no value is reported; otherwise the default is taken, and
  a default factory is called at that moment, in the world of that moment. Types are
  not validated here.
\<close>

definition get_default :: "'w FieldInfo \<Rightarrow> 'w \<Rightarrow> pyval \<times> 'w" where
  "get_default fi w =
     (case default_factory fi of
        Some produce \<Rightarrow> produce w
      | None \<Rightarrow> (case fi_default fi of DefaultValue v \<Rightarrow> (v, w) | _ \<Rightarrow> (PNone, w)))"

definition required :: "'w FieldInfo \<Rightarrow> bool" where
  "required fi = (fi_default fi = Ellipsis \<and> (case default_factory fi of None \<Rightarrow> True | Some p \<Rightarrow> False))"

fun validate_model ::
  "'w dto_fields \<Rightarrow> (string \<rightharpoonup> pyval) \<Rightarrow> 'w \<Rightarrow> (string \<times> pyval) list \<times> string list \<times> 'w" where
  "validate_model [] input w = ([], [], w)"
| "validate_model ((key, (t, fi)) # rest) input w =
     (case input key of
        Some v \<Rightarrow>
          (case validate_model rest input w of (vals, missing, w') \<Rightarrow> ((key, v) # vals, missing, w'))
      | None \<Rightarrow>
          if required fi then
            (case validate_model rest input w of (vals, missing, w') \<Rightarrow> (vals, key # missing, w'))
          else
            (case get_default fi w of
               (v, w1) \<Rightarrow>
                 (case validate_model rest input w1 of
                    (vals, missing, w') \<Rightarrow> ((key, v) # vals, missing, w'))))"

definition instantiate ::
  "'w schema \<Rightarrow> (string \<rightharpoonup> pyval) \<Rightarrow> 'w \<Rightarrow> (error + (string \<times> pyval) list) \<times> 'w" where
  "instantiate S input w =
     (case validate_model (schema_fields S) input w of
        (vals, missing, w') \<Rightarrow>
          if missing = [] then (Inr vals, w') else (Inl (ValidationError missing), w'))"

section \<open>tests/unit/utils.py: the mock repository\<close>

text \<open>
  Entities are objects: the caller and the repository hold references to them, and
  \<^verbatim>\<open>add\<close> stores the very object it is given. An object is an address; the heap
  gives the \<^verbatim>\<open>__dict__\<close> of the object at each address, a dict from attribute names to
  values in insertion order. \<^verbatim>\<open>collection\<close> is the class-level dict from identifiers to
  stored objects. \<open>id_calls\<close> counts the calls of \<^verbatim>\<open>self._id_factory\<close> so far.
\<close>

type_synonym addr = nat

type_synonym pydict = "(string \<times> pyval) list"

record repo_state =
  heap :: "addr \<Rightarrow> pydict"
  collection :: "(pyval \<times> addr) list"
  id_calls :: nat

text \<open>The keys of a dict are distinct.\<close>

definition is_dict :: "pydict \<Rightarrow> bool" where
  "is_dict d = distinct (map fst d)"

definition setattr :: "addr \<Rightarrow> string \<Rightarrow> pyval \<Rightarrow> repo_state \<Rightarrow> repo_state" where
  "setattr item k v s = s\<lparr>heap := (heap s)(item := AList.update k v (heap s item))\<rparr>"

definition delattr :: "addr \<Rightarrow> string \<Rightarrow> repo_state \<Rightarrow> error + repo_state" where
  "delattr item k s =
     (case map_of (heap s item) k of
        None \<Rightarrow> Inl (AttributeError k)
      | Some v \<Rightarrow> Inr (s\<lparr>heap := (heap s)(item := AList.delete k (heap s item))\<rparr>))"

text \<open>
  Modelled from the spec: the name of the identity attribute and the identity accessor
  of \<^verbatim>\<open>AbstractRepository\<close> (app/lib/repository/abc.py is missing). An entity whose
  identity is unset has no identity: the accessor gives \<^verbatim>\<open>None\<close>.
\<close>

definition id_attribute :: string where
  "id_attribute = ''id''"

definition get_id_attribute_value :: "addr \<Rightarrow> repo_state \<Rightarrow> pyval" where
  "get_id_attribute_value item s =
     (case map_of (heap s item) id_attribute of None \<Rightarrow> PNone | Some v \<Rightarrow> v)"

text \<open>
  Modelled from the spec: \<^verbatim>\<open>check_not_found\<close> of \<^verbatim>\<open>AbstractRepository\<close>
  (missing), which raises \<^verbatim>\<open>NotFound\<close> when the identity is absent from the store.
\<close>

definition check_not_found :: "addr option \<Rightarrow> error + addr" where
  "check_not_found item_or_none =
     (case item_or_none of None \<Rightarrow> Inl RepositoryNotFoundException | Some item \<Rightarrow> Inr item)"

definition find_or_raise_not_found :: "pyval \<Rightarrow> repo_state \<Rightarrow> error + addr" where
  "find_or_raise_not_found ident s = check_not_found (map_of (collection s) ident)"

definition set_id_attribute_value :: "addr \<Rightarrow> pyval \<Rightarrow> repo_state \<Rightarrow> repo_state" where
  "set_id_attribute_value item v s = setattr item id_attribute v s"

text \<open>
  \<open>id_factory n\<close> is what the \<open>n\<close>-th call of \<^verbatim>\<open>self._id_factory()\<close> returns (counting
  from 0), and \<open>now\<close> what \<^verbatim>\<open>datetime.now()\<close> returns in this call: \<^verbatim>\<open>add\<close> and
  \<^verbatim>\<open>update\<close> each read the clock once. The chained assignment
  \<^verbatim>\<open>data.updated = data.created = now\<close> assigns \<^verbatim>\<open>updated\<close> first.
\<close>

definition add ::
  "(nat \<Rightarrow> pyval) \<Rightarrow> int \<Rightarrow> addr \<Rightarrow> repo_state \<Rightarrow> (error + addr) \<times> repo_state" where
  "add id_factory now data s =
     (if get_id_attribute_value data s \<noteq> PNone
      then (Inl (AssertionError ''received identified instance''), s)
      else
        let s1 = setattr data ''updated'' (PDatetime now) s;
            s2 = setattr data ''created'' (PDatetime now) s1;
            ident = id_factory (id_calls s2);
            s3 = s2\<lparr>id_calls := Suc (id_calls s2)\<rparr>;
            s4 = set_id_attribute_value data ident s3;
            s5 = s4\<lparr>collection := AList.update ident data (collection s4)\<rparr>
        in (Inr data, s5))"

definition delete :: "pyval \<Rightarrow> repo_state \<Rightarrow> (error + addr) \<times> repo_state" where
  "delete ident s =
     (case find_or_raise_not_found ident s of
        Inl e \<Rightarrow> (Inl e, s)
      | Inr item \<Rightarrow> (Inr item, s\<lparr>collection := AList.delete ident (collection s)\<rparr>))"

definition get :: "pyval \<Rightarrow> repo_state \<Rightarrow> (error + addr) \<times> repo_state" where
  "get ident s = (find_or_raise_not_found ident s, s)"

text \<open>\<^verbatim>\<open>list\<close> takes the filters and the keyword constraints and reads neither.\<close>

definition list_items ::
  "'f list \<Rightarrow> (string \<times> pyval) list \<Rightarrow> repo_state \<Rightarrow> (error + addr list) \<times> repo_state" where
  "list_items filters kwargs s = (Inr (map snd (collection s)), s)"

text \<open>
  The loop of \<^verbatim>\<open>update\<close> over \<^verbatim>\<open>data.__dict__.items()\<close>. When \<open>item\<close> is \<open>data\<close>
  itself the loop assigns each attribute its own value, so the items read at the start
  are the items the loop sees.
\<close>

fun merge_items :: "pydict \<Rightarrow> addr \<Rightarrow> repo_state \<Rightarrow> repo_state" where
  "merge_items [] item s = s"
| "merge_items ((k, v) # kvs) item s =
     (if startswith k ''_'' then merge_items kvs item s
      else merge_items kvs item (setattr item k v s))"

definition update :: "int \<Rightarrow> addr \<Rightarrow> repo_state \<Rightarrow> (error + addr) \<times> repo_state" where
  "update now data s =
     (case find_or_raise_not_found (get_id_attribute_value data s) s of
        Inl e \<Rightarrow> (Inl e, s)
      | Inr item \<Rightarrow>
          (case delattr data ''created'' s of
             Inl e \<Rightarrow> (Inl e, s)
           | Inr s1 \<Rightarrow>
               let s2 = setattr data ''updated'' (PDatetime now) s1;
                   s3 = merge_items (heap s2 data) item s2
               in (Inr item, s3)))"

definition upsert ::
  "(nat \<Rightarrow> pyval) \<Rightarrow> int \<Rightarrow> addr \<Rightarrow> repo_state \<Rightarrow> (error + addr) \<times> repo_state" where
  "upsert id_factory now data s =
     (if get_id_attribute_value data s = PNone then add id_factory now data s
      else update now data s)"

section \<open>app/lib/service.py\<close>

text \<open>
  \<^verbatim>\<open>Service\<close> holds any object with the interface of \<^verbatim>\<open>AbstractRepository\<close>: a
  record of its operations over the repository's own state \<open>'s\<close>, entities \<open>'e\<close>,
  identifiers \<open>'i\<close> and filters \<open>'f\<close>.
\<close>

record ('s, 'e, 'i, 'f) repository =
  repo_get_id_attribute_value :: "'e \<Rightarrow> 's \<Rightarrow> 'i"
  repo_add :: "'e \<Rightarrow> 's \<Rightarrow> (error + 'e) \<times> 's"
  repo_get :: "'i \<Rightarrow> 's \<Rightarrow> (error + 'e) \<times> 's"
  repo_list :: "'f list \<Rightarrow> (string \<times> 'i) list \<Rightarrow> 's \<Rightarrow> (error + 'e list) \<times> 's"
  repo_update :: "'e \<Rightarrow> 's \<Rightarrow> (error + 'e) \<times> 's"
  repo_upsert :: "'e \<Rightarrow> 's \<Rightarrow> (error + 'e) \<times> 's"
  repo_delete :: "'i \<Rightarrow> 's \<Rightarrow> (error + 'e) \<times> 's"

definition authorize_item_id ::
  "('s, 'e, 'i, 'f) repository \<Rightarrow> 'i \<Rightarrow> 'e \<Rightarrow> 's \<Rightarrow> error + unit" where
  "authorize_item_id repository ident data s =
     (if repo_get_id_attribute_value repository data s \<noteq> ident
      then Inl (UnauthorizedException ''Identifier in data must match `id_`'')
      else Inr ())"

definition authorize_create :: "('s, 'e, 'i, 'f) repository \<Rightarrow> 'e \<Rightarrow> 's \<Rightarrow> error + 'e" where
  "authorize_create repository data s = Inr data"

definition Service_create ::
  "('s, 'e, 'i, 'f) repository \<Rightarrow> 'e \<Rightarrow> 's \<Rightarrow> (error + 'e) \<times> 's" where
  "Service_create repository data s =
     (case authorize_create repository data s of
        Inl e \<Rightarrow> (Inl e, s)
      | Inr data' \<Rightarrow> repo_add repository data' s)"

definition authorize_update ::
  "('s, 'e, 'i, 'f) repository \<Rightarrow> 'i \<Rightarrow> 'e \<Rightarrow> 's \<Rightarrow> error + 'e" where
  "authorize_update repository ident data s =
     (case authorize_item_id repository ident data s of
        Inl e \<Rightarrow> Inl e
      | Inr u \<Rightarrow> Inr data)"

definition Service_update ::
  "('s, 'e, 'i, 'f) repository \<Rightarrow> 'i \<Rightarrow> 'e \<Rightarrow> 's \<Rightarrow> (error + 'e) \<times> 's" where
  "Service_update repository ident data s =
     (case authorize_update repository ident data s of
        Inl e \<Rightarrow> (Inl e, s)
      | Inr data' \<Rightarrow> repo_update repository data' s)"

definition authorize_upsert ::
  "('s, 'e, 'i, 'f) repository \<Rightarrow> 'i \<Rightarrow> 'e \<Rightarrow> 's \<Rightarrow> error + 'e" where
  "authorize_upsert repository ident data s =
     (case authorize_item_id repository ident data s of
        Inl e \<Rightarrow> Inl e
      | Inr u \<Rightarrow> Inr data)"

definition Service_upsert ::
  "('s, 'e, 'i, 'f) repository \<Rightarrow> 'i \<Rightarrow> 'e \<Rightarrow> 's \<Rightarrow> (error + 'e) \<times> 's" where
  "Service_upsert repository ident data s =
     (case authorize_upsert repository ident data s of
        Inl e \<Rightarrow> (Inl e, s)
      | Inr data' \<Rightarrow> repo_upsert repository data' s)"

text \<open>
  A \<^verbatim>\<open>GenericMockRepository\<close> built with \<open>id_factory\<close>, as \<^verbatim>\<open>Service\<close> sees it
  while the clock reads \<open>now\<close>.
\<close>

definition GenericMockRepository ::
  "(nat \<Rightarrow> pyval) \<Rightarrow> int \<Rightarrow> (repo_state, addr, pyval, 'f) repository" where
  "GenericMockRepository id_factory now =
     \<lparr>repo_get_id_attribute_value = get_id_attribute_value,
      repo_add = add id_factory now,
      repo_get = get,
      repo_list = list_items,
      repo_update = update now,
      repo_upsert = upsert id_factory now,
      repo_delete = delete\<rparr>"

section \<open>Example data\<close>

text \<open>
  A store holding two widgets (objects 0 and 3), a caller's copy of the first with another
  name and a private attribute (object 1), a widget not yet added (object 2), and a
  widget that the caller built with the first one's identity and a new name (object 4).
\<close>

definition widget_heap :: "addr \<Rightarrow> pydict" where
  "widget_heap =
     (\<lambda>a. [])
       (0 := [(''name'', PStr ''a''), (''updated'', PDatetime 100),
              (''created'', PDatetime 100), (''id'', PStr ''X'')],
        1 := [(''id'', PStr ''X''), (''name'', PStr ''b''),
              (''created'', PDatetime 100), (''_rev'', PInt 7)],
        2 := [(''name'', PStr ''c'')],
        3 := [(''name'', PStr ''b''), (''updated'', PDatetime 150),
              (''created'', PDatetime 150), (''id'', PStr ''Y'')],
        4 := [(''id'', PStr ''X''), (''name'', PStr ''d'')])"

definition widget_store :: repo_state where
  "widget_store =
     \<lparr>heap = widget_heap, collection = [(PStr ''X'', 0), (PStr ''Y'', 3)], id_calls = 2\<rparr>"

text \<open>An identifier factory that returns the number of the call.\<close>

definition counting_ids :: "nat \<Rightarrow> pyval" where
  "counting_ids n = PInt (int n)"

text \<open>An identifier factory that returns X at every call.\<close>

definition stuck_ids :: "nat \<Rightarrow> pyval" where
  "stuck_ids n = PStr ''X''"

text \<open>
  A repository whose state is the number of times its \<^verbatim>\<open>update\<close> has been called.
  Its entities are pairs of an identifier and a name.
\<close>

definition spy_repository :: "(nat, string \<times> string, string, unit) repository" where
  "spy_repository =
     \<lparr>repo_get_id_attribute_value = (\<lambda>e calls. fst e),
      repo_add = (\<lambda>e calls. (Inr e, calls)),
      repo_get = (\<lambda>i calls. (Inl RepositoryNotFoundException, calls)),
      repo_list = (\<lambda>fs kw calls. (Inr [], calls)),
      repo_update = (\<lambda>e calls. (Inr e, Suc calls)),
      repo_upsert = (\<lambda>e calls. (Inr e, calls)),
      repo_delete = (\<lambda>i calls. (Inl RepositoryNotFoundException, calls))\<rparr>"

text \<open>
  A pydantic with some of the attributes of \<^verbatim>\<open>BaseModel\<close> and validators for the
  types used below.
\<close>

definition pydantic_v1 :: pydantic where
  "pydantic_v1 =
     \<lparr>BaseModel_attribute =
        (\<lambda>name. name \<in> set [''Config'', ''dict'', ''json'', ''copy'', ''schema'',
                             ''schema_json'', ''construct'', ''validate'', ''from_orm'',
                             ''parse_obj'', ''parse_raw'', ''parse_file'',
                             ''update_forward_refs'']),
      has_validator = (\<lambda>t. t \<in> set [''str'', ''int'', ''UUID'', ''datetime''])\<rparr>"

text \<open>A default factory that reads a counter from the world and advances it.\<close>

definition next_token :: "(string \<times> pyval) list \<Rightarrow> nat \<Rightarrow> pyval \<times> nat" where
  "next_token ctx n = (PInt (int n), Suc n)"




text \<open>A model whose column has a default that is neither scalar nor callable.\<close>

definition audit_model :: "nat orm_model" where
  "audit_model =
     \<lparr>type_hints = [(''stamp'', Mapped ''datetime'')],
      columns = [''stamp'' \<mapsto> \<lparr>info = Map.empty, col_default = Some OtherDefault\<rparr>]\<rparr>"

text \<open>A model with a factory default on a field that write schemas include.\<close>

definition ticket_model :: "nat orm_model" where
  "ticket_model =
     \<lparr>type_hints = [(''token'', Mapped ''int''), (''name'', Mapped ''str'')],
      columns =
        [''token'' \<mapsto> \<lparr>info = Map.empty, col_default = Some (CallableDefault next_token)\<rparr>,
         ''name'' \<mapsto> \<lparr>info = Map.empty, col_default = None\<rparr>]\<rparr>"



definition ticket_write :: "nat schema" where
  "ticket_write =
     \<lparr>schema_name = ''TicketWrite'', orm_mode = True,
      schema_fields =
        [(''token'', ''int'', \<lparr>fi_default = Undefined, default_factory = Some (next_token [])\<rparr>),
         (''name'', ''str'', \<lparr>fi_default = Ellipsis, default_factory = None\<rparr>)]\<rparr>"

section \<open>Schema projection: which fields, which defaults\<close>

lemmas dto_eval =
  factory_def should_exclude_field_def DTO_INFO_KEY_def construct_field_info_def
  create_model_def is_valid_field_def ROOT_KEY_def startswith_def pydantic_v1_def

lemma model_fields_Inr:
  "model_fields lib dto = Inr fs \<Longrightarrow> fs = filter (\<lambda>x. is_valid_field (fst x)) dto"
proof (induction dto arbitrary: fs)
  case Nil
  then show ?case by simp
next
  case (Cons f dto)
  obtain name t fi where f: "f = (name, (t, fi))" by (cases f) auto
  show ?case
  proof (cases "is_valid_field name")
    case True
    with Cons.prems f obtain fs' where
      rest: "model_fields lib dto = Inr fs'" and fs: "fs = (name, (t, fi)) # fs'"
      by (auto split: if_splits sum.splits)
    from Cons.IH[OF rest] fs True f show ?thesis by simp
  next
    case False
    with Cons.prems f have "model_fields lib dto = Inr fs" by simp
    from Cons.IH[OF this] False f show ?thesis by simp
  qed
qed

lemma model_fields_Inl:
  "model_fields lib dto = Inl e \<Longrightarrow> (\<exists>n. e = NameError n) \<or> (\<exists>t. e = RuntimeError t)"
proof (induction dto)
  case Nil
  then show ?case by simp
next
  case (Cons f dto)
  obtain name t fi where f: "f = (name, (t, fi))" by (cases f) auto
  from Cons.prems Cons.IH f show ?case
    by (auto split: if_splits sum.splits)
qed

lemma create_model_Inr:
  "create_model lib name dto = Inr S \<Longrightarrow>
   schema_fields S = filter (\<lambda>x. is_valid_field (fst x)) dto"
  by (auto simp: create_model_def split: sum.splits if_splits dest: model_fields_Inr)

lemma create_model_not_default_error:
  "create_model lib name dto \<noteq> Inl (ValueError ''Unexpected default type'')"
  by (auto simp: create_model_def split: sum.splits if_splits dest: model_fields_Inl)

lemma factory_loop_read_Inl:
  "factory_loop hs cols Purpose_read dto = Inl e \<Longrightarrow> \<exists>k. e = KeyError k"
proof (induction hs arbitrary: dto)
  case Nil
  then show ?case by simp
next
  case (Cons h hs)
  obtain key hint where h: "h = (key, hint)" by (cases h)
  show ?case
  proof (cases "cols key")
    case None
    with Cons.prems h show ?thesis by auto
  next
    case (Some c)
    have "construct_field_info c Purpose_read =
        Inr \<lparr>fi_default = Ellipsis, default_factory = None\<rparr>"
      by (simp add: construct_field_info_def split: option.splits)
    with Some Cons.prems h obtain dto1 where
      "factory_loop hs cols Purpose_read dto1 = Inl e"
      by (auto split: if_splits type_hint.splits)
    from Cons.IH[OF this] show ?thesis .
  qed
qed


lemma construct_field_info_read:
  "construct_field_info c Purpose_read = Inr \<lparr>fi_default = Ellipsis, default_factory = None\<rparr>"
  by (simp add: construct_field_info_def split: option.splits)

lemma construct_field_info_write_Inl:
  "(construct_field_info c Purpose_write = Inl e) =
     (col_default c = Some OtherDefault \<and> e = ValueError ''Unexpected default type'')"
  by (auto simp: construct_field_info_def split: option.splits column_default.splits)

lemma factory_loop_read_ok:
  "fst ` set hs \<subseteq> dom cols \<Longrightarrow> \<exists>dto'. factory_loop hs cols Purpose_read dto = Inr dto'"
proof (induction hs arbitrary: dto)
  case Nil
  show ?case by simp
next
  case (Cons h hs)
  obtain key hint where h: "h = (key, hint)" by (cases h)
  from Cons.prems h obtain c where c: "cols key = Some c" by auto
  from Cons.prems have sub: "fst ` set hs \<subseteq> dom cols" by simp
  show ?case using Cons.IH[OF sub] h c
    by (cases hint) (simp_all add: construct_field_info_read)
qed

lemma factory_loop_write_cases:
  "fst ` set hs \<subseteq> dom cols \<Longrightarrow>
   (case factory_loop hs cols Purpose_write dto of
      Inl e \<Rightarrow> e = ValueError ''Unexpected default type'' \<and>
        (\<exists>key t c. (key, Mapped t) \<in> set hs \<and> cols key = Some c \<and>
           col_default c = Some OtherDefault \<and> \<not> should_exclude_field Purpose_write c)
    | Inr dto' \<Rightarrow>
        \<not> (\<exists>key t c. (key, Mapped t) \<in> set hs \<and> cols key = Some c \<and>
           col_default c = Some OtherDefault \<and> \<not> should_exclude_field Purpose_write c))"
proof (induction hs arbitrary: dto)
  case Nil
  show ?case by simp
next
  case (Cons h hs)
  obtain key hint where h: "h = (key, hint)" by (cases h)
  from Cons.prems h obtain c where c: "cols key = Some c" by auto
  from Cons.prems have sub: "fst ` set hs \<subseteq> dom cols" by simp
  note IH = Cons.IH[OF sub]
  show ?case
  proof (cases "should_exclude_field Purpose_write c")
    case True
    then show ?thesis using IH[of dto] h c
      by (auto split: sum.splits)
  next
    case False
    show ?thesis
    proof (cases hint)
      case (NotMapped t)
      then show ?thesis using IH[of dto] h c False
        by (auto split: sum.splits)
    next
      case (Mapped t)
      show ?thesis
      proof (cases "construct_field_info c Purpose_write")
        case (Inl e)
        then have bad: "col_default c = Some OtherDefault"
          and e: "e = ValueError ''Unexpected default type''"
          by (simp_all add: construct_field_info_write_Inl)
        have res: "factory_loop (h # hs) cols Purpose_write dto = Inl e"
          using h c False Mapped Inl by simp
        have "\<exists>k t' c'. (k, Mapped t') \<in> set (h # hs) \<and> cols k = Some c' \<and>
           col_default c' = Some OtherDefault \<and> \<not> should_exclude_field Purpose_write c'"
          using h Mapped c bad False by auto
        with res e show ?thesis by simp
      next
        case (Inr fi)
        then have ok: "col_default c \<noteq> Some OtherDefault"
          using construct_field_info_write_Inl[of c] by auto
        show ?thesis using IH[of "AList.update key (t, fi) dto"] h c False Mapped Inr ok
          by (auto split: sum.splits)
      qed
    qed
  qed
qed

lemma factory_loop_other_key:
  "key \<notin> fst ` set hs \<Longrightarrow> factory_loop hs cols p dto = Inr dto' \<Longrightarrow>
   map_of dto' key = map_of dto key"
proof (induction hs arbitrary: dto)
  case Nil
  then show ?case by simp
next
  case (Cons h hs)
  obtain k hint where h: "h = (k, hint)" by (cases h)
  from Cons.prems h have ne: "k \<noteq> key" and notin: "key \<notin> fst ` set hs" by auto
  from Cons.prems(2) h obtain c where c: "cols k = Some c" by (cases "cols k") auto
  from Cons.prems(2) h c ne Cons.IH[OF notin] show ?case
    by (auto simp: AList.update_conv' split: if_splits type_hint.splits sum.splits)
qed

lemma factory_loop_lookup:
  "distinct (map fst hs) \<Longrightarrow> factory_loop hs cols p dto = Inr dto' \<Longrightarrow>
   (key, Mapped t) \<in> set hs \<Longrightarrow> cols key = Some c \<Longrightarrow> \<not> should_exclude_field p c \<Longrightarrow>
   \<exists>fi. construct_field_info c p = Inr fi \<and> map_of dto' key = Some (t, fi)"
proof (induction hs arbitrary: dto)
  case Nil
  then show ?case by simp
next
  case (Cons h hs)
  obtain k hint where h: "h = (k, hint)" by (cases h)
  from Cons.prems(1) h have dist: "distinct (map fst hs)" and knotin: "k \<notin> fst ` set hs"
    by auto
  show ?case
  proof (cases "k = key")
    case True
    with Cons.prems(3) h knotin have hint: "hint = Mapped t"
      by (auto simp: image_iff)
    from Cons.prems(2,4,5) h True hint obtain fi where
      fi: "construct_field_info c p = Inr fi"
      and rest: "factory_loop hs cols p (AList.update key (t, fi) dto) = Inr dto'"
      by (cases "construct_field_info c p") auto
    from knotin True factory_loop_other_key[OF _ rest]
    have "map_of dto' key = Some (t, fi)"
      by (simp add: AList.update_conv')
    with fi show ?thesis by blast
  next
    case False
    with Cons.prems(3) h have mem: "(key, Mapped t) \<in> set hs" by auto
    from Cons.prems(2) h obtain ck where ck: "cols k = Some ck" by (cases "cols k") auto
    from Cons.prems(2) h ck obtain dto1 where "factory_loop hs cols p dto1 = Inr dto'"
      by (auto split: if_splits type_hint.splits sum.splits)
    from Cons.IH[OF dist this mem Cons.prems(4,5)] show ?thesis .
  qed
qed

lemma validate_model_append:
  "validate_model (pre @ rest) input w =
     (case validate_model pre input w of
        (v0, e0, w0) \<Rightarrow>
          (case validate_model rest input w0 of
             (v1, e1, w1) \<Rightarrow> (v0 @ v1, e0 @ e1, w1)))"
proof (induction pre arbitrary: w)
  case Nil
  show ?case by (simp split: prod.splits)
next
  case (Cons f pre)
  obtain key t fi where f: "f = (key, (t, fi))" by (cases f) auto
  show ?case unfolding f
    by (simp add: Cons.IH split: prod.splits option.splits)
qed

lemma map_of_split_first:
  "map_of xs k = Some v \<Longrightarrow> \<exists>pre post. xs = pre @ (k, v) # post \<and> k \<notin> fst ` set pre"
proof (induction xs)
  case Nil
  then show ?case by simp
next
  case (Cons x xs)
  obtain k' v' where x: "x = (k', v')" by (cases x)
  show ?case
  proof (cases "k' = k")
    case True
    with Cons.prems x have "x # xs = [] @ (k, v) # xs \<and> k \<notin> fst ` set []" by simp
    then show ?thesis by blast
  next
    case False
    with Cons.prems x have "map_of xs k = Some v" by simp
    from Cons.IH[OF this] obtain pre post where
      "xs = pre @ (k, v) # post" "k \<notin> fst ` set pre" by blast
    with False x have "x # xs = (x # pre) @ (k, v) # post \<and> k \<notin> fst ` set (x # pre)"
      by auto
    then show ?thesis by blast
  qed
qed




text \<open>
  C6, as the code has it. Projection for reading never looks at a default kind: it
  never fails with \<^verbatim>\<open>ValueError('Unexpected default type')\<close>. Projection for
  writing, provided every hinted key has a column, fails with that error exactly when a
  field that passes the visibility and \<^verbatim>\<open>Mapped\<close> guards has a default that is
  neither scalar nor callable.
\<close>

theorem factory_unrecognised_default:
  "factory lib name m Purpose_read \<noteq> Inl (ValueError ''Unexpected default type'') \<and>
   (fst ` set (type_hints m) \<subseteq> dom (columns m) \<longrightarrow>
    (factory lib name m Purpose_write = Inl (ValueError ''Unexpected default type'')) =
    (\<exists>key t c. (key, Mapped t) \<in> set (type_hints m) \<and> columns m key = Some c \<and>
       col_default c = Some OtherDefault \<and> \<not> should_exclude_field Purpose_write c))"
proof -
  have r: "factory lib name m Purpose_read \<noteq> Inl (ValueError ''Unexpected default type'')"
  proof (cases "factory_loop (type_hints m) (columns m) Purpose_read []")
    case (Inl e)
    from factory_loop_read_Inl[OF Inl] obtain k where "e = KeyError k" ..
    with Inl show ?thesis by (simp add: factory_def)
  next
    case (Inr dto)
    with create_model_not_default_error[of lib name dto] show ?thesis
      by (simp add: factory_def)
  qed
  have w: "(factory lib name m Purpose_write = Inl (ValueError ''Unexpected default type'')) =
    (\<exists>key t c. (key, Mapped t) \<in> set (type_hints m) \<and> columns m key = Some c \<and>
       col_default c = Some OtherDefault \<and> \<not> should_exclude_field Purpose_write c)"
    if cover: "fst ` set (type_hints m) \<subseteq> dom (columns m)"
  proof (cases "factory_loop (type_hints m) (columns m) Purpose_write []")
    case (Inl e)
    with factory_loop_write_cases[OF cover, of "[]"] show ?thesis
      by (simp add: factory_def)
  next
    case (Inr dto)
    with factory_loop_write_cases[OF cover, of "[]"]
      create_model_not_default_error[of lib name dto]
    show ?thesis by (simp add: factory_def)
  qed
  from r w show ?thesis by blast
qed

text \<open>The write schema of the audit model cannot be built.\<close>

theorem factory_unrecognised_default_witness:
  "fst ` set (type_hints audit_model) \<subseteq> dom (columns audit_model) \<and>
   factory pydantic_v1 ''AuditWrite'' audit_model Purpose_write =
     Inl (ValueError ''Unexpected default type'')"
proof -
  have cover: "fst ` set (type_hints audit_model) \<subseteq> dom (columns audit_model)"
    by (simp add: audit_model_def)
  from factory_unrecognised_default[of pydantic_v1 "''AuditWrite''" audit_model] cover
  show ?thesis
    by (simp add: dto_eval audit_model_def)
qed

text \<open>
  The claim as stated fails for the read purpose: the read schema of the same model
  is built, with the field required.
\<close>

theorem factory_read_accepts_unrecognised_default:
  "columns audit_model ''stamp'' = Some \<lparr>info = Map.empty, col_default = Some OtherDefault\<rparr> \<and>
   factory pydantic_v1 ''AuditRead'' audit_model Purpose_read =
     Inr \<lparr>schema_name = ''AuditRead'', orm_mode = True,
          schema_fields =
            [(''stamp'', ''datetime'', \<lparr>fi_default = Ellipsis, default_factory = None\<rparr>)]\<rparr>"
  by (simp add: dto_eval audit_model_def)

text \<open>
  C7. A field with a callable default that a write schema includes (its hint is
  \<^verbatim>\<open>Mapped[...]\<close>, visibility does not exclude it, its name is a field name) carries a
  default factory, not a value: the schema holds the producer applied to the empty context, and
  every instantiation that supplies no value for the field runs the producer then, in the
  world reached at that field, after the fields before it and before the fields after it.
  Two instantiations are two runs of the producer.
\<close>

theorem factory_default_factory_called:
  assumes ok: "factory lib name m Purpose_write = Inr S"
    and dist: "distinct (map fst (type_hints m))"
    and mem: "(key, Mapped t) \<in> set (type_hints m)"
    and col: "columns m key = Some c"
    and incl: "\<not> should_exclude_field Purpose_write c"
    and valid: "is_valid_field key"
    and dflt: "col_default c = Some (CallableDefault produce)"
  shows "\<exists>pre post.
     schema_fields S =
       pre @ (key, (t, \<lparr>fi_default = Undefined, default_factory = Some (produce [])\<rparr>)) # post \<and>
     key \<notin> fst ` set pre \<and>
     (\<forall>input w. input key = None \<longrightarrow>
        validate_model (schema_fields S) input w =
          (case validate_model pre input w of
             (v0, e0, w0) \<Rightarrow>
               (case produce [] w0 of
                  (v, w1) \<Rightarrow>
                    (case validate_model post input w1 of
                       (v1, e1, w2) \<Rightarrow> (v0 @ (key, v) # v1, e0 @ e1, w2)))))"
proof -
  let ?fi = "\<lparr>fi_default = Undefined, default_factory = Some (produce [])\<rparr>"
  from ok obtain dto0 where
    loop: "factory_loop (type_hints m) (columns m) Purpose_write [] = Inr dto0"
    and made: "create_model lib name dto0 = Inr S"
    by (auto simp: factory_def split: sum.splits)
  define dto where "dto = filter (\<lambda>x. is_valid_field (fst x)) dto0"
  from create_model_Inr[OF made] have S: "schema_fields S = dto"
    by (simp add: dto_def)
  from dflt have "construct_field_info c Purpose_write = Inr ?fi"
    by (simp add: construct_field_info_def)
  with factory_loop_lookup[OF dist loop mem col incl]
  have "map_of dto0 key = Some (t, ?fi)" by auto
  with valid have "map_of dto key = Some (t, ?fi)"
    unfolding dto_def by (simp add: map_of_filter restrict_map_def)
  from map_of_split_first[OF this] obtain pre post where
    split: "dto = pre @ (key, (t, ?fi)) # post" and notin: "key \<notin> fst ` set pre"
    by blast
  have "validate_model dto input w =
          (case validate_model pre input w of
             (v0, e0, w0) \<Rightarrow>
               (case produce [] w0 of
                  (v, w1) \<Rightarrow>
                    (case validate_model post input w1 of
                       (v1, e1, w2) \<Rightarrow> (v0 @ (key, v) # v1, e0 @ e1, w2))))"
    if "input key = None" for input w
    using that unfolding split validate_model_append
    by (simp add: required_def get_default_def split: prod.splits)
  then have calls: "\<forall>input w. input key = None \<longrightarrow>
        validate_model (schema_fields S) input w =
          (case validate_model pre input w of
             (v0, e0, w0) \<Rightarrow>
               (case produce [] w0 of
                  (v, w1) \<Rightarrow>
                    (case validate_model post input w1 of
                       (v1, e1, w2) \<Rightarrow> (v0 @ (key, v) # v1, e0 @ e1, w2))))"
    unfolding S by simp
  from split S have sf: "schema_fields S = pre @ (key, (t, ?fi)) # post" by simp
  show ?thesis
    by (rule exI[of _ pre], rule exI[of _ post]) (rule conjI[OF sf conjI[OF notin calls]])
qed

text \<open>
  Two tickets created one after the other, neither with a token: the counter is read
  twice, the tokens are 0 and 1, and the counter ends at 2.
\<close>

theorem factory_default_factory_called_witness:
  "factory pydantic_v1 ''TicketWrite'' ticket_model Purpose_write = Inr ticket_write \<and>
   distinct (map fst (type_hints ticket_model)) \<and>
   (''token'', Mapped ''int'') \<in> set (type_hints ticket_model) \<and>
   columns ticket_model ''token'' =
     Some \<lparr>info = Map.empty, col_default = Some (CallableDefault next_token)\<rparr> \<and>
   instantiate ticket_write [''name'' \<mapsto> PStr ''a''] 0 =
     (Inr [(''token'', PInt 0), (''name'', PStr ''a'')], 1) \<and>
   instantiate ticket_write [''name'' \<mapsto> PStr ''b''] 1 =
     (Inr [(''token'', PInt 1), (''name'', PStr ''b'')], 2)"
proof -
  let ?c = "\<lparr>info = Map.empty, col_default = Some (CallableDefault next_token)\<rparr>"
  have f: "factory pydantic_v1 ''TicketWrite'' ticket_model Purpose_write = Inr ticket_write"
    by (simp add: dto_eval ticket_model_def ticket_write_def)
  have d: "distinct (map fst (type_hints ticket_model))"
    by (simp add: ticket_model_def)
  have m: "(''token'', Mapped ''int'') \<in> set (type_hints ticket_model)"
    by (simp add: ticket_model_def)
  have c: "columns ticket_model ''token'' = Some ?c"
    by (simp add: ticket_model_def)
  have i: "\<not> should_exclude_field Purpose_write ?c"
    by (simp add: should_exclude_field_def)
  have v: "is_valid_field ''token''"
    by (simp add: is_valid_field_def startswith_def)
  have p: "col_default ?c = Some (CallableDefault next_token)"
    by simp
  have inst:
    "instantiate ticket_write [''name'' \<mapsto> PStr ''a''] 0 =
       (Inr [(''token'', PInt 0), (''name'', PStr ''a'')], 1)"
    "instantiate ticket_write [''name'' \<mapsto> PStr ''b''] 1 =
       (Inr [(''token'', PInt 1), (''name'', PStr ''b'')], 2)"
    by (simp_all add: instantiate_def ticket_write_def required_def get_default_def
        next_token_def)
  from factory_default_factory_called[OF f d m c i v p] obtain pre post where
    "schema_fields ticket_write =
       pre @ (''token'', ''int'',
              \<lparr>fi_default = Undefined, default_factory = Some (next_token [])\<rparr>) # post"
    by blast
  with f d m c inst show ?thesis by simp
qed

section \<open>The mock repository\<close>

lemma heap_setattr [simp]:
  "heap (setattr item k v s) = (heap s)(item := AList.update k v (heap s item))"
  "collection (setattr item k v s) = collection s"
  "id_calls (setattr item k v s) = id_calls s"
  by (simp_all add: setattr_def)

lemma merge_items_frame:
  "collection (merge_items kvs item s) = collection s \<and>
   id_calls (merge_items kvs item s) = id_calls s \<and>
   (a \<noteq> item \<longrightarrow> heap (merge_items kvs item s) a = heap s a)"
  by (induction kvs item s rule: merge_items.induct) simp_all

lemma merge_items_map_of:
  "distinct (map fst kvs) \<Longrightarrow>
   map_of (heap (merge_items kvs item s) item) k =
     (case map_of kvs k of
        None \<Rightarrow> map_of (heap s item) k
      | Some v \<Rightarrow> if startswith k ''_'' then map_of (heap s item) k else Some v)"
proof (induction kvs item s rule: merge_items.induct)
  case (1 item s)
  show ?case by simp
next
  case (2 k' v' kvs item s)
  from "2.prems" have dist: "distinct (map fst kvs)" and fresh: "map_of kvs k' = None"
    by (auto simp: map_of_eq_None_iff)
  show ?case
  proof (cases "startswith k' ''_''")
    case True
    with "2.IH"(1)[OF True dist] fresh show ?thesis by (auto split: option.splits)
  next
    case False
    with "2.IH"(2)[OF False dist] fresh show ?thesis
      by (auto simp: AList.update_conv' split: option.splits)
  qed
qed

text \<open>
  C3, as the code has it. \<^verbatim>\<open>add\<close> on an entity that already has an identity fails
  with Python's \<^verbatim>\<open>AssertionError\<close>, message \<^verbatim>\<open>received identified instance\<close>: the
  failure of a bare \<^verbatim>\<open>assert\<close>, not an error kind of the repository's own. The store
  is left as it was.
\<close>

theorem add_identified:
  "get_id_attribute_value data s \<noteq> PNone \<Longrightarrow>
   add id_factory now data s = (Inl (AssertionError ''received identified instance''), s)"
  by (simp add: add_def)

text \<open>Object 1 carries the identity X.\<close>

theorem add_identified_witness:
  "get_id_attribute_value 1 widget_store \<noteq> PNone \<and>
   add counting_ids 200 1 widget_store =
     (Inl (AssertionError ''received identified instance''), widget_store)"
proof -
  have h: "get_id_attribute_value 1 widget_store \<noteq> PNone"
    by (simp add: get_id_attribute_value_def id_attribute_def widget_store_def widget_heap_def)
  from add_identified[OF h, of counting_ids 200] h show ?thesis by simp
qed

text \<open>
  The claim as stated fails: what the caller of \<^verbatim>\<open>add\<close> gets for object 4, which
  carries the identity X, is the assertion error, not \<open>IdentityConflict\<close>.
\<close>

theorem add_raises_assertion_error:
  "get_id_attribute_value 4 widget_store = PStr ''X'' \<and>
   fst (add counting_ids 200 4 widget_store) =
     Inl (AssertionError ''received identified instance'') \<and>
   fst (add counting_ids 200 4 widget_store) \<noteq> Inl IdentityConflict"
  by (simp add: add_def get_id_attribute_value_def id_attribute_def widget_store_def
      widget_heap_def)

text \<open>
  C8, as the code has it. \<^verbatim>\<open>add\<close> on an entity with no identity returns that entity;
  its identity is what the identifier factory returned in this call, whether or not the
  store already holds an entity under that identity (the collection then maps it to the
  new entity), its \<^verbatim>\<open>created\<close> and
  \<^verbatim>\<open>updated\<close> are both the one clock reading of the call, and \<^verbatim>\<open>get\<close> finds it
  under the new identity. Its other attributes, the other objects and the other entries
  of the collection are as before.
\<close>

theorem add_unidentified:
  assumes "get_id_attribute_value data s = PNone"
  shows "\<exists>s'. add id_factory now data s = (Inr data, s') \<and>
     get_id_attribute_value data s' = id_factory (id_calls s) \<and>
     map_of (heap s' data) ''created'' = Some (PDatetime now) \<and>
     map_of (heap s' data) ''updated'' = Some (PDatetime now) \<and>
     get (id_factory (id_calls s)) s' = (Inr data, s') \<and>
     (\<forall>k. k \<noteq> ''id'' \<and> k \<noteq> ''created'' \<and> k \<noteq> ''updated'' \<longrightarrow>
        map_of (heap s' data) k = map_of (heap s data) k) \<and>
     (\<forall>a. a \<noteq> data \<longrightarrow> heap s' a = heap s a) \<and>
     map_of (collection s') = (map_of (collection s))(id_factory (id_calls s) \<mapsto> data) \<and>
     id_calls s' = Suc (id_calls s)"
  using assms
  by (simp add: add_def Let_def set_id_attribute_value_def get_id_attribute_value_def
      id_attribute_def get_def find_or_raise_not_found_def check_not_found_def
      AList.update_conv')

text \<open>Object 2 has no identity; the factory's third call returns 2.\<close>

theorem add_unidentified_witness:
  "get_id_attribute_value 2 widget_store = PNone \<and>
   fst (add counting_ids 200 2 widget_store) = Inr 2 \<and>
   heap (snd (add counting_ids 200 2 widget_store)) 2 =
     [(''name'', PStr ''c''), (''updated'', PDatetime 200), (''created'', PDatetime 200),
      (''id'', PInt 2)] \<and>
   collection (snd (add counting_ids 200 2 widget_store)) =
     [(PStr ''X'', 0), (PStr ''Y'', 3), (PInt 2, 2)]"
  using add_unidentified[of 2 widget_store counting_ids 200]
  by (simp add: add_def Let_def set_id_attribute_value_def get_id_attribute_value_def
      id_attribute_def widget_store_def widget_heap_def counting_ids_def)

text \<open>
  The claim as stated fails: the identity need not be fresh. With a factory that returns
  X, under which object 0 is stored, \<^verbatim>\<open>add\<close> gives object 2 the identity X and
  stores it in the place of object 0.
\<close>

theorem add_reuses_stored_identity:
  "get_id_attribute_value 2 widget_store = PNone \<and>
   map_of (collection widget_store) (PStr ''X'') = Some 0 \<and>
   fst (add stuck_ids 200 2 widget_store) = Inr 2 \<and>
   get_id_attribute_value 2 (snd (add stuck_ids 200 2 widget_store)) = PStr ''X'' \<and>
   map_of (collection (snd (add stuck_ids 200 2 widget_store))) (PStr ''X'') = Some 2"
  by (simp add: add_def Let_def set_id_attribute_value_def get_id_attribute_value_def
      id_attribute_def widget_store_def widget_heap_def stuck_ids_def)

text \<open>
  C9. \<^verbatim>\<open>upsert\<close> is \<^verbatim>\<open>add\<close> on an entity with no identity and \<^verbatim>\<open>update\<close>
  on an entity with one: the same result, the same failure and the same final state.
\<close>

theorem upsert_dispatch:
  "(get_id_attribute_value data s = PNone \<longrightarrow>
      upsert id_factory now data s = add id_factory now data s) \<and>
   (get_id_attribute_value data s \<noteq> PNone \<longrightarrow>
      upsert id_factory now data s = update now data s)"
  by (simp add: upsert_def)

text \<open>Object 2 has no identity, object 1 has one.\<close>

theorem upsert_dispatch_witness:
  "get_id_attribute_value 2 widget_store = PNone \<and>
   upsert counting_ids 200 2 widget_store = add counting_ids 200 2 widget_store \<and>
   get_id_attribute_value 1 widget_store \<noteq> PNone \<and>
   upsert counting_ids 200 1 widget_store = update 200 1 widget_store"
  using upsert_dispatch[of 2 widget_store counting_ids 200]
    upsert_dispatch[of 1 widget_store counting_ids 200]
  by (simp add: get_id_attribute_value_def id_attribute_def widget_store_def widget_heap_def)

lemmas repo_eval =
  update_def find_or_raise_not_found_def check_not_found_def delattr_def setattr_def
  get_id_attribute_value_def id_attribute_def startswith_def Let_def
  widget_store_def widget_heap_def

lemma update_Inr:
  assumes "update now data s = (Inr item, s')"
  shows "map_of (collection s) (get_id_attribute_value data s) = Some item \<and>
     map_of (heap s data) ''created'' \<noteq> None \<and>
     s' = merge_items
            (AList.update ''updated'' (PDatetime now) (AList.delete ''created'' (heap s data)))
            item
            (s\<lparr>heap := (heap s)(data :=
                 AList.update ''updated'' (PDatetime now)
                   (AList.delete ''created'' (heap s data)))\<rparr>)"
  using assms
  by (auto simp: update_def find_or_raise_not_found_def check_not_found_def delattr_def
      setattr_def Let_def split: option.splits)

lemma update_succeeds:
  assumes "map_of (collection s) (get_id_attribute_value data s) = Some item"
    and "map_of (heap s data) ''created'' = Some c"
  shows "update now data s =
     (Inr item,
      merge_items
        (AList.update ''updated'' (PDatetime now) (AList.delete ''created'' (heap s data)))
        item
        (s\<lparr>heap := (heap s)(data :=
             AList.update ''updated'' (PDatetime now)
               (AList.delete ''created'' (heap s data)))\<rparr>))"
  using assms
  by (simp add: update_def find_or_raise_not_found_def check_not_found_def delattr_def
      setattr_def Let_def)

text \<open>
  An entity whose identity is stored but which has no \<^verbatim>\<open>created\<close> attribute makes
  \<^verbatim>\<open>del data.created\<close> raise, before anything is changed.
\<close>

lemma update_without_created:
  assumes "map_of (collection s) (get_id_attribute_value data s) = Some item"
    and "map_of (heap s data) ''created'' = None"
  shows "update now data s = (Inl (AttributeError ''created''), s)"
  using assms
  by (simp add: update_def find_or_raise_not_found_def check_not_found_def delattr_def)

lemma merged_dict:
  "is_dict d \<Longrightarrow>
   distinct (map fst (AList.update ''updated'' v (AList.delete ''created'' d))) \<and>
   map_of (AList.update ''updated'' v (AList.delete ''created'' d)) =
     (map_of d)(''created'' := None, ''updated'' \<mapsto> v)"
  by (simp add: is_dict_def AList.distinct_update AList.distinct_delete AList.update_conv'
      AList.delete_conv')

text \<open>
  C4, as the code has it. After a successful \<^verbatim>\<open>update\<close> with an entity that is not
  the stored object itself: the stored entity's \<^verbatim>\<open>created\<close> is unchanged; every
  attribute of the argument other than \<^verbatim>\<open>created\<close> whose name does not start with an
  underscore has been written onto the stored entity; the stored entity's other
  attributes are unchanged; and its \<^verbatim>\<open>updated\<close> is the clock reading of the call,
  whatever it was before. The argument's \<^verbatim>\<open>__dict__\<close> is a dict: its keys are
  distinct.
\<close>

theorem update_merges:
  assumes ok: "update now data s = (Inr item, s')"
    and other: "item \<noteq> data"
    and dict: "is_dict (heap s data)"
  shows "map_of (collection s) (get_id_attribute_value data s) = Some item \<and>
     map_of (heap s' item) ''created'' = map_of (heap s item) ''created'' \<and>
     map_of (heap s' item) ''updated'' = Some (PDatetime now) \<and>
     (\<forall>k v. k \<noteq> ''created'' \<and> k \<noteq> ''updated'' \<and> \<not> startswith k ''_'' \<and>
        map_of (heap s data) k = Some v \<longrightarrow> map_of (heap s' item) k = Some v) \<and>
     (\<forall>k. k \<noteq> ''updated'' \<and> (startswith k ''_'' \<or> map_of (heap s data) k = None) \<longrightarrow>
        map_of (heap s' item) k = map_of (heap s item) k) \<and>
     collection s' = collection s"
proof -
  let ?kvs = "AList.update ''updated'' (PDatetime now) (AList.delete ''created'' (heap s data))"
  let ?s2 = "s\<lparr>heap := (heap s)(data := ?kvs)\<rparr>"
  from update_Inr[OF ok] have
    stored: "map_of (collection s) (get_id_attribute_value data s) = Some item"
    and s': "s' = merge_items ?kvs item ?s2"
    by simp_all
  from merged_dict[OF dict] have
    dist: "distinct (map fst ?kvs)"
    and kvs: "map_of ?kvs = (map_of (heap s data))(''created'' := None, ''updated'' \<mapsto> PDatetime now)"
    by simp_all
  from other have item: "heap ?s2 item = heap s item" by simp
  have look: "map_of (heap s' item) k =
     (case map_of ?kvs k of
        None \<Rightarrow> map_of (heap s item) k
      | Some v \<Rightarrow> if startswith k ''_'' then map_of (heap s item) k else Some v)" for k
    unfolding s' using merge_items_map_of[OF dist, of item ?s2 k] other
    by (simp split: option.splits)
  have us: "\<not> startswith ''updated'' ''_''" by (simp add: startswith_def)
  have coll: "collection s' = collection s"
    unfolding s' using merge_items_frame[of ?kvs item ?s2] by simp
  have c: "map_of (heap s' item) ''created'' = map_of (heap s item) ''created''"
    using look[of "''created''"] by (simp add: kvs)
  have u: "map_of (heap s' item) ''updated'' = Some (PDatetime now)"
    using look[of "''updated''"] us by (simp add: kvs)
  have m: "\<forall>k v. k \<noteq> ''created'' \<and> k \<noteq> ''updated'' \<and> \<not> startswith k ''_'' \<and>
        map_of (heap s data) k = Some v \<longrightarrow> map_of (heap s' item) k = Some v"
    by (simp add: look kvs)
  have fr: "\<forall>k. k \<noteq> ''updated'' \<and> (startswith k ''_'' \<or> map_of (heap s data) k = None) \<longrightarrow>
        map_of (heap s' item) k = map_of (heap s item) k"
    by (auto simp: look kvs split: option.splits)
  from stored c u m fr coll show ?thesis by (intro conjI)
qed

text \<open>Object 1 is the caller's copy of the widget stored as object 0.\<close>

theorem update_merges_witness:
  "update 300 1 widget_store = (Inr 0, snd (update 300 1 widget_store)) \<and>
   (0::nat) \<noteq> 1 \<and> is_dict (heap widget_store 1) \<and>
   heap (snd (update 300 1 widget_store)) 0 =
     [(''name'', PStr ''b''), (''updated'', PDatetime 300), (''created'', PDatetime 100),
      (''id'', PStr ''X'')]"
proof -
  have run: "update 300 1 widget_store = (Inr 0, snd (update 300 1 widget_store))"
    by (simp add: repo_eval)
  have ne: "(0::nat) \<noteq> 1" by simp
  have dict: "is_dict (heap widget_store 1)"
    by (simp add: is_dict_def widget_store_def widget_heap_def)
  from update_merges[OF run ne dict] run ne dict show ?thesis
    by (simp add: repo_eval)
qed

text \<open>
  The claim as stated fails in three ways. When the clock reads what it read at the last
  write, \<^verbatim>\<open>updated\<close> is not greater than before. An attribute of the argument whose
  name starts with an underscore is not merged. And when the argument is the stored
  object itself, the stored entity loses its \<^verbatim>\<open>created\<close>.
\<close>

theorem update_breaks_timestamps:
  "fst (update 100 1 widget_store) = Inr 0 \<and>
   map_of (heap widget_store 0) ''updated'' = Some (PDatetime 100) \<and>
   map_of (heap (snd (update 100 1 widget_store)) 0) ''updated'' = Some (PDatetime 100) \<and>
   map_of (heap widget_store 1) ''_rev'' = Some (PInt 7) \<and>
   map_of (heap (snd (update 100 1 widget_store)) 0) ''_rev'' = None \<and>
   fst (update 200 0 widget_store) = Inr 0 \<and>
   map_of (heap widget_store 0) ''created'' = Some (PDatetime 100) \<and>
   map_of (heap (snd (update 200 0 widget_store)) 0) ''created'' = None"
  by (simp add: repo_eval)

text \<open>
  C10, as the code has it. \<^verbatim>\<open>update\<close> changes the object it is given. For an entity
  whose identity is stored and which carries \<^verbatim>\<open>created\<close>, the call succeeds, and afterwards the
  argument has no \<^verbatim>\<open>created\<close>, its \<^verbatim>\<open>updated\<close> is the clock reading of the
  call, and its other attributes are as before. This holds also when the argument is the
  stored object itself. The argument's \<^verbatim>\<open>__dict__\<close> is a dict: its keys are
  distinct.
\<close>

theorem update_mutates_argument:
  assumes stored: "map_of (collection s) (get_id_attribute_value data s) = Some item"
    and dict: "is_dict (heap s data)"
    and created: "map_of (heap s data) ''created'' = Some c"
  shows "\<exists>s'. update now data s = (Inr item, s') \<and>
     map_of (heap s' data) =
       (map_of (heap s data))(''created'' := None, ''updated'' \<mapsto> PDatetime now)"
proof -
  let ?kvs = "AList.update ''updated'' (PDatetime now) (AList.delete ''created'' (heap s data))"
  let ?s2 = "s\<lparr>heap := (heap s)(data := ?kvs)\<rparr>"
  let ?s' = "merge_items ?kvs item ?s2"
  note run = update_succeeds[OF stored created, of now]
  from merged_dict[OF dict] have
    dist: "distinct (map fst ?kvs)"
    and kvs: "map_of ?kvs = (map_of (heap s data))(''created'' := None, ''updated'' \<mapsto> PDatetime now)"
    by simp_all
  have "map_of (heap ?s' data) = map_of ?kvs"
  proof (cases "item = data")
    case True
    have "map_of (heap ?s' data) k = map_of ?kvs k" for k
      using merge_items_map_of[OF dist, of data ?s2 k] True
      by (simp split: option.splits)
    then show ?thesis by (simp add: fun_eq_iff)
  next
    case False
    with merge_items_frame[of ?kvs item ?s2 data] show ?thesis by simp
  qed
  with kvs have "map_of (heap ?s' data) =
      (map_of (heap s data))(''created'' := None, ''updated'' \<mapsto> PDatetime now)"
    by simp
  with run show ?thesis by blast
qed

text \<open>The caller's copy, object 1, after the call.\<close>

theorem update_mutates_argument_witness:
  "map_of (collection widget_store) (get_id_attribute_value 1 widget_store) = Some 0 \<and>
   is_dict (heap widget_store 1) \<and>
   map_of (heap widget_store 1) ''created'' = Some (PDatetime 100) \<and>
   fst (update 300 1 widget_store) = Inr 0 \<and>
   heap (snd (update 300 1 widget_store)) 1 =
     [(''id'', PStr ''X''), (''name'', PStr ''b''), (''_rev'', PInt 7),
      (''updated'', PDatetime 300)]"
proof -
  have stored: "map_of (collection widget_store) (get_id_attribute_value 1 widget_store) = Some 0"
    by (simp add: repo_eval)
  have dict: "is_dict (heap widget_store 1)"
    by (simp add: is_dict_def widget_store_def widget_heap_def)
  have created: "map_of (heap widget_store 1) ''created'' = Some (PDatetime 100)"
    by (simp add: widget_store_def widget_heap_def)
  from update_mutates_argument[OF stored dict created, of 300] stored dict created
  show ?thesis
    by (simp add: repo_eval)
qed

text \<open>
  The claim as stated fails for an identified entity with no \<^verbatim>\<open>created\<close>: object 4
  has the stored identity X, \<^verbatim>\<open>update\<close> raises \<^verbatim>\<open>AttributeError\<close> at
  \<^verbatim>\<open>del data.created\<close>, and the object's \<^verbatim>\<open>updated\<close> is never set.
\<close>

theorem update_needs_created:
  "get_id_attribute_value 4 widget_store = PStr ''X'' \<and>
   map_of (collection widget_store) (PStr ''X'') = Some 0 \<and>
   update 300 4 widget_store = (Inl (AttributeError ''created''), widget_store) \<and>
   map_of (heap (snd (update 300 4 widget_store)) 4) ''updated'' = None"
  by (simp add: repo_eval)

text \<open>
  C5, at a failing input. The store holds a widget named a and a widget named b.
  \<^verbatim>\<open>list(name="a")\<close> returns both, and \<^verbatim>\<open>list(name="zzz")\<close>, which no widget
  matches, returns both as well.
\<close>

theorem list_ignores_filters:
  "list_items ([] :: unit list) [(''name'', PStr ''a'')] widget_store = (Inr [0, 3], widget_store) \<and>
   map_of (heap widget_store 3) ''name'' = Some (PStr ''b'') \<and>
   list_items ([] :: unit list) [(''name'', PStr ''zzz'')] widget_store = (Inr [0, 3], widget_store)"
  by (simp add: list_items_def widget_store_def widget_heap_def)

section \<open>The service\<close>

text \<open>
  C1. For any repository: when the identity of \<open>data\<close> differs from \<open>ident\<close>,
  \<^verbatim>\<open>Service.update\<close> raises \<^verbatim>\<open>UnauthorizedException\<close> and the repository's state
  is the state before the call; no operation of the repository that changes its state has run.
\<close>

theorem Service_update_unauthorized:
  "repo_get_id_attribute_value repository data s \<noteq> ident \<Longrightarrow>
   Service_update repository ident data s =
     (Inl (UnauthorizedException ''Identifier in data must match `id_`''), s)"
  by (simp add: Service_update_def authorize_update_def authorize_item_id_def)

text \<open>
  On the repository that counts the calls of its \<^verbatim>\<open>update\<close>, the count stays 0,
  where a call of \<^verbatim>\<open>update\<close> would have made it 1.
\<close>

theorem Service_update_unauthorized_witness:
  "repo_get_id_attribute_value spy_repository (''B'', ''d'') 0 \<noteq> ''A'' \<and>
   Service_update spy_repository ''A'' (''B'', ''d'') 0 =
     (Inl (UnauthorizedException ''Identifier in data must match `id_`''), 0) \<and>
   snd (repo_update spy_repository (''B'', ''d'') 0) = 1"
  using Service_update_unauthorized[of spy_repository "(''B'', ''d'')" 0 "''A''"]
  by (simp add: spy_repository_def)

end
